theory Spec2Isabelle
  imports Main
begin

text \<open>
  The mastering project and the attribute configuration collection of the Tamr client
  (\<^verbatim>\<open>tamr_unify_client/mastering/project.py\<close> and
  \<^verbatim>\<open>tamr_unify_client/models/attribute_configuration/collection.py\<close>), as
  functions that pass the outside world along: every call that goes through the shared
  client is recorded, and every exception is a value.
\<close>

section \<open>Data model\<close>

text \<open>
  JSON values as the Python \<^verbatim>\<open>json\<close> module decodes them. A Python dict is the
  association list of its items, whose keys are distinct; numbers are kept as integers,
  since no operation of the client computes with them.
\<close>

datatype json =
    JNull
  | JBool bool
  | JNum int
  | JStr string
  | JArr "json list"
  | JObj "(string \<times> json) list"

text \<open>The exceptions that can travel through the client, as values.\<close>

datatype error =
    NotImplementedError string
  | NotFound
  | AuthError
  | RequestFailed nat
  | MalformedResponse
  | TransportError
  | JSONDecodeError
  | KeyError string
  | TypeError

datatype http_verb = GET | POST

text \<open>
  The body of a request: \<^verbatim>\<open>client.post(path, json=spec)\<close> sends a JSON value,
  \<^verbatim>\<open>client.post(path, data=text)\<close> sends raw text.
\<close>

datatype payload = NoBody | JsonBody json | DataBody string

record request =
  verb :: http_verb
  path :: string
  payload :: payload
  streaming :: bool

text \<open>
  A response of the transport: its status code, the value \<^verbatim>\<open>.json()\<close> decodes
  (if the body decodes at all), the lines \<^verbatim>\<open>.iter_lines()\<close> delivers, and the
  failure that ends the line stream early, if any.
\<close>

record response =
  status :: nat
  json_of :: "json option"
  lines :: "string list"
  fault :: "error option"

text \<open>
  The classes of resource that the operations below construct. A resource is
  \<^verbatim>\<open>cls(client, data, api_path)\<close>: the handle of the shared client, the body
  (\<open>None\<close> while unresolved) and the relative path.
\<close>

datatype resource_class =
    Dataset
  | MachineLearningModel
  | BinningModel
  | AttributeConfiguration
  | MasteringProject
  | AttributeConfigurationCollection

record resource =
  cls :: resource_class
  client :: nat
  data :: "json option"
  api_path :: string

text \<open>The two classes of the cluster-version streams; each wraps the decoded line.\<close>

datatype cluster = PublishedCluster json | RecordPublishedCluster json

text \<open>
  What the code under verification does to the outside world: the calls it makes through
  the shared client, in order, and how many streaming connections it has acquired and
  released.
\<close>

datatype call = Http request | ByName string | UnifiedDataset string

record world =
  calls :: "call list"
  acquired :: nat
  released :: nat

text \<open>
  The collaborators of the code, which are not part of it: the transport with the server
  behind it, the unified dataset of each project, the dataset collection of the server,
  and the two functions of Python's \<^verbatim>\<open>json\<close> module.
\<close>

record env =
  respond :: "request \<Rightarrow> error + response"
  unified :: "string \<Rightarrow> error + resource"
  datasets :: "resource list"
  dumps :: "string \<Rightarrow> string"
  loads :: "string \<Rightarrow> json option"

section \<open>Effects: a world-passing computation that may raise\<close>

type_synonym 'a io = "world \<Rightarrow> (error + 'a) \<times> world"

definition io_return :: "'a \<Rightarrow> 'a io" where
  "io_return x w = (Inr x, w)"

definition io_raise :: "error \<Rightarrow> 'a io" where
  "io_raise e w = (Inl e, w)"

definition io_bind :: "'a io \<Rightarrow> ('a \<Rightarrow> 'b io) \<Rightarrow> 'b io" where
  "io_bind m f w = (case m w of (Inl e, w') \<Rightarrow> (Inl e, w') | (Inr x, w') \<Rightarrow> f x w')"

definition io_lift :: "error + 'a \<Rightarrow> 'a io" where
  "io_lift r w = (r, w)"

definition record_call :: "call \<Rightarrow> world \<Rightarrow> world" where
  "record_call c w = w\<lparr>calls := calls w @ [c]\<rparr>"

section \<open>Collaborators outside the verified files\<close>

text \<open>
  Modelled from the spec: the shared client's \<^verbatim>\<open>get\<close> and \<^verbatim>\<open>post\<close> are
  missing from the sources. Each issues one HTTP request through the transport and blocks
  until the exchange completes; a transport failure is raised. A streaming request keeps
  its connection until the response is closed.
\<close>

definition client_request :: "env \<Rightarrow> request \<Rightarrow> response io" where
  "client_request env req w =
     (let w1 = record_call (Http req) w
      in case respond env req of
           Inl e \<Rightarrow> (Inl e, w1)
         | Inr r \<Rightarrow> (Inr r, if streaming req then w1\<lparr>acquired := acquired w1 + 1\<rparr> else w1))"

definition client_get :: "env \<Rightarrow> string \<Rightarrow> response io" where
  "client_get env p =
     client_request env \<lparr>verb = GET, path = p, payload = NoBody, streaming = False\<rparr>"

definition client_post :: "env \<Rightarrow> string \<Rightarrow> payload \<Rightarrow> bool \<Rightarrow> response io" where
  "client_post env p b s =
     client_request env \<lparr>verb = POST, path = p, payload = b, streaming = s\<rparr>"

text \<open>Closing a streamed response releases its connection.\<close>

definition response_close :: "world \<Rightarrow> world" where
  "response_close w = w\<lparr>released := released w + 1\<rparr>"

text \<open>
  Modelled from the spec: \<^verbatim>\<open>successful()\<close> of a response is missing from the sources.
  A status outside 2xx surfaces as a categorised failure: \<open>NotFound\<close> for 404,
  \<open>AuthError\<close> for 401 and 403, \<open>RequestFailed\<close> otherwise.
\<close>

definition successful :: "response \<Rightarrow> error + response" where
  "successful r =
     (if 200 \<le> status r \<and> status r < 300 then Inr r
      else if status r = 404 then Inl NotFound
      else if status r = 401 \<or> status r = 403 then Inl AuthError
      else Inl (RequestFailed (status r)))"

text \<open>
  Modelled from the spec: \<^verbatim>\<open>json()\<close> of a response is missing from the sources. A
  body that does not decode is a \<open>MalformedResponse\<close>.
\<close>

definition response_json :: "response \<Rightarrow> error + json" where
  "response_json r = (case json_of r of None \<Rightarrow> Inl MalformedResponse | Some j \<Rightarrow> Inr j)"

text \<open>Reading a key of a decoded object; anything else has no keys.\<close>

fun lookup :: "string \<Rightarrow> json \<Rightarrow> error + json" where
  "lookup k (JObj kvs) = (case map_of kvs k of None \<Rightarrow> Inl (KeyError k) | Some v \<Rightarrow> Inr v)"
| "lookup k _ = Inl (KeyError k)"

text \<open>
  Modelled from the spec: the base class of resources is missing from the sources. A
  resource is created from a path alone (unresolved) or from a path and a body that has
  already been fetched (resolved); creating it makes no network call.
\<close>

definition new_resource :: "resource_class \<Rightarrow> nat \<Rightarrow> json option \<Rightarrow> string \<Rightarrow> resource" where
  "new_resource c cl d p = \<lparr>cls = c, client = cl, data = d, api_path = p\<rparr>"

text \<open>
  Modelled from the spec: \<^verbatim>\<open>from_json(client, resource_json, api_path=None)\<close> is
  missing from the sources. It wraps a fetched body at the given path. The path of a
  resource is always present, so without a path the resource is addressed by the
  \<^verbatim>\<open>relativeId\<close> of its body, and a body without one cannot be wrapped.
\<close>

definition from_json :: "resource_class \<Rightarrow> nat \<Rightarrow> json option \<Rightarrow> string option \<Rightarrow> error + resource" where
  "from_json c cl resource_json p =
     (case p of
        Some a \<Rightarrow> Inr (new_resource c cl resource_json a)
      | None \<Rightarrow>
          (case resource_json of
             None \<Rightarrow> Inl TypeError
           | Some j \<Rightarrow>
               (case lookup ''relativeId'' j of
                  Inr (JStr rid) \<Rightarrow> Inr (new_resource c cl resource_json rid)
                | Inr _ \<Rightarrow> Inl TypeError
                | Inl e \<Rightarrow> Inl e)))"

text \<open>
  Modelled from the spec: the field accessors of a resource are missing from the sources.
  A field is read from the resolved body; an unresolved resource first fetches its own
  path once, with the failures of that fetch.
\<close>

definition fetch_body :: "env \<Rightarrow> resource \<Rightarrow> json io" where
  "fetch_body env r =
     io_bind (client_get env (api_path r)) (\<lambda>resp.
     io_bind (io_lift (successful resp)) (\<lambda>ok.
     io_lift (response_json ok)))"

definition get_field :: "env \<Rightarrow> string \<Rightarrow> resource \<Rightarrow> json io" where
  "get_field env k r =
     (case data r of
        Some b \<Rightarrow> io_lift (lookup k b)
      | None \<Rightarrow> io_bind (fetch_body env r) (\<lambda>b. io_lift (lookup k b)))"

definition relative_id :: "env \<Rightarrow> resource \<Rightarrow> json io" where
  "relative_id env r = get_field env ''relativeId'' r"

text \<open>The name of a dataset, as a string that can be concatenated.\<close>

definition name :: "env \<Rightarrow> resource \<Rightarrow> string io" where
  "name env r =
     io_bind (get_field env ''name'' r) (\<lambda>v.
       case v of JStr s \<Rightarrow> io_return s | _ \<Rightarrow> io_raise TypeError)"

text \<open>
  Modelled from the spec: \<^verbatim>\<open>Project.unified_dataset\<close> is missing from the sources.
  It fetches the unified dataset of the project, which carries the canonical name.
\<close>

definition unified_dataset :: "env \<Rightarrow> resource \<Rightarrow> resource io" where
  "unified_dataset env p w =
     (unified env (api_path p), record_call (UnifiedDataset (api_path p)) w)"

text \<open>
  Modelled from the spec: \<^verbatim>\<open>client.datasets.by_name\<close> is missing from the sources.
  It is an exact-name lookup in the dataset collection, and fails with \<open>NotFound\<close>
  when no dataset has the name.
\<close>

definition has_name :: "string \<Rightarrow> resource \<Rightarrow> bool" where
  "has_name n d =
     (case data d of
        None \<Rightarrow> False
      | Some b \<Rightarrow> (case lookup ''name'' b of Inr (JStr s) \<Rightarrow> s = n | _ \<Rightarrow> False))"

definition by_name :: "env \<Rightarrow> string \<Rightarrow> resource io" where
  "by_name env n w =
     (case find (has_name n) (datasets env) of
        None \<Rightarrow> (Inl NotFound, record_call (ByName n) w)
      | Some d \<Rightarrow> (Inr d, record_call (ByName n) w))"

section \<open>MasteringProject\<close>

definition pairs :: "resource \<Rightarrow> resource io" where
  "pairs self =
     (let alias = api_path self @ ''/recordPairs''
      in io_return (new_resource Dataset (client self) None alias))"

definition pair_matching_model :: "resource \<Rightarrow> resource io" where
  "pair_matching_model self =
     (let alias = api_path self @ ''/recordPairsWithPredictions/model''
      in io_return (new_resource MachineLearningModel (client self) None alias))"

definition high_impact_pairs :: "resource \<Rightarrow> resource io" where
  "high_impact_pairs self =
     (let alias = api_path self @ ''/highImpactPairs''
      in io_return (new_resource Dataset (client self) None alias))"

definition record_clusters :: "resource \<Rightarrow> resource io" where
  "record_clusters self =
     (let alias = api_path self @ ''/recordClusters''
      in io_return (new_resource Dataset (client self) None alias))"

definition published_clusters :: "env \<Rightarrow> resource \<Rightarrow> resource io" where
  "published_clusters env self =
     io_bind (unified_dataset env self) (\<lambda>ud.
     io_bind (name env ud) (\<lambda>n.
     io_bind (by_name env (n @ ''_dedup_published_clusters'')) (\<lambda>canonical.
       let resource_json = data canonical;
           alias = api_path self @ ''/publishedClusters''
       in io_lift (from_json Dataset (client self) resource_json (Some alias)))))"

definition published_cluster_ids :: "env \<Rightarrow> resource \<Rightarrow> resource io" where
  "published_cluster_ids env self =
     io_bind (unified_dataset env self) (\<lambda>ud.
     io_bind (name env ud) (\<lambda>n.
     io_bind (by_name env (n @ ''_dedup_all_persistent_ids'')) (\<lambda>dataset.
       let p = api_path self @ ''/allPublishedClusterIds''
       in io_lift (from_json Dataset (client self) (data dataset) (Some p)))))"

definition published_cluster_stats :: "env \<Rightarrow> resource \<Rightarrow> resource io" where
  "published_cluster_stats env self =
     io_bind (unified_dataset env self) (\<lambda>ud.
     io_bind (name env ud) (\<lambda>n.
     io_bind (by_name env (n @ ''_dedup_published_cluster_stats'')) (\<lambda>dataset.
       let p = api_path self @ ''/publishedClusterStats''
       in io_lift (from_json Dataset (client self) (data dataset) (Some p)))))"

definition record_clusters_with_data :: "env \<Rightarrow> resource \<Rightarrow> resource io" where
  "record_clusters_with_data env self =
     io_bind (unified_dataset env self) (\<lambda>ud.
     io_bind (name env ud) (\<lambda>n.
       by_name env (n @ ''_dedup_clusters_with_data'')))"

definition published_clusters_with_data :: "env \<Rightarrow> resource \<Rightarrow> resource io" where
  "published_clusters_with_data env self =
     io_bind (unified_dataset env self) (\<lambda>ud.
     io_bind (name env ud) (\<lambda>n.
       by_name env (n @ ''_dedup_published_clusters_with_data'')))"

definition binning_model :: "resource \<Rightarrow> resource io" where
  "binning_model self =
     (let alias = api_path self @ ''/binningModel'';
          resource_json = JObj [(''relativeId'', JStr alias)]
      in io_lift (from_json BinningModel (client self) (Some resource_json) (Some alias)))"

subsection \<open>The cluster-version streams\<close>

text \<open>
  \<^verbatim>\<open>sep.join(parts)\<close>: the parts with the separator between neighbours.
\<close>

fun join :: "string \<Rightarrow> string list \<Rightarrow> string" where
  "join sep [] = []"
| "join sep [x] = x"
| "join sep (x # y # ys) = x @ sep @ join sep (y # ys)"

definition newline :: string where
  "newline = [CHR 0x0A]"

text \<open>
  \<^verbatim>\<open>_cluster_versions\<close> is a generator function: calling it runs none of its body
  and returns a generator that holds the arguments. The body runs when the caller asks
  for elements. A generator is either not yet started, suspended at the
  \<^verbatim>\<open>yield\<close> inside the \<^verbatim>\<open>with\<close> block (holding the class to build, the
  lines not yet read and the failure that ends the line stream, if any), or finished.
\<close>

datatype generator =
    is_Created: Created "json \<Rightarrow> cluster" "string list" string
  | is_Suspended: Suspended "json \<Rightarrow> cluster" "string list" "error option"
  | is_Finished: Finished

datatype 'a signal = is_Yield: Yield 'a | StopIteration | Raise error

definition cluster_versions :: "resource \<Rightarrow> (json \<Rightarrow> cluster) \<Rightarrow> string list \<Rightarrow> string \<Rightarrow> generator io" where
  "cluster_versions self cluster_class ids endpoint =
     io_return (Created cluster_class ids endpoint)"

definition published_cluster_versions :: "resource \<Rightarrow> string list \<Rightarrow> generator io" where
  "published_cluster_versions self cluster_ids =
     (let p = api_path self @ ''/publishedClusterVersions''
      in cluster_versions self PublishedCluster cluster_ids p)"

definition record_published_cluster_versions :: "resource \<Rightarrow> string list \<Rightarrow> generator io" where
  "record_published_cluster_versions self record_ids =
     (let p = api_path self @ ''/recordPublishedClusterVersions''
      in cluster_versions self RecordPublishedCluster record_ids p)"

text \<open>
  The \<^verbatim>\<open>for\<close> loop over the lines, from where it stands to the next
  \<^verbatim>\<open>yield\<close>. Leaving the \<^verbatim>\<open>with\<close> block, at the end of the lines or by an
  exception of the line stream or of \<^verbatim>\<open>json.loads\<close>, closes the response.
\<close>

definition next_line :: "env \<Rightarrow> (json \<Rightarrow> cluster) \<Rightarrow> string list \<Rightarrow> error option \<Rightarrow> world
    \<Rightarrow> cluster signal \<times> generator \<times> world" where
  "next_line env cluster_class ls flt w =
     (case ls of
        [] \<Rightarrow>
          (case flt of
             None \<Rightarrow> (StopIteration, Finished, response_close w)
           | Some e \<Rightarrow> (Raise e, Finished, response_close w))
      | line # rest \<Rightarrow>
          (case loads env line of
             None \<Rightarrow> (Raise JSONDecodeError, Finished, response_close w)
           | Some j \<Rightarrow> (Yield (cluster_class j), Suspended cluster_class rest flt, w)))"

text \<open>
  \<^verbatim>\<open>next(generator)\<close>. The first request runs the body from its start: it joins
  the encoded identifiers, posts them with \<^verbatim>\<open>stream=True\<close> and enters the
  \<^verbatim>\<open>with\<close> block. An exception of the post itself is raised before the block
  is entered.
\<close>

definition gen_next :: "env \<Rightarrow> generator \<Rightarrow> world \<Rightarrow> cluster signal \<times> generator \<times> world" where
  "gen_next env g w =
     (case g of
        Created cluster_class ids endpoint \<Rightarrow>
          (let string_ids = join newline (map (dumps env) ids)
           in case client_post env endpoint (DataBody string_ids) True w of
                (Inl e, w1) \<Rightarrow> (Raise e, Finished, w1)
              | (Inr response, w1) \<Rightarrow>
                  next_line env cluster_class (lines response) (fault response) w1)
      | Suspended cluster_class ls flt \<Rightarrow> next_line env cluster_class ls flt w
      | Finished \<Rightarrow> (StopIteration, Finished, w))"

text \<open>
  \<^verbatim>\<open>generator.close()\<close>, which also runs when an abandoned generator is
  finalised: a generator suspended inside the \<^verbatim>\<open>with\<close> block leaves it, which
  closes the response; one that never started or has finished has nothing to leave.
\<close>

definition gen_close :: "generator \<Rightarrow> world \<Rightarrow> generator \<times> world" where
  "gen_close g w =
     (case g of
        Created cluster_class ids endpoint \<Rightarrow> (Finished, w)
      | Suspended cluster_class ls flt \<Rightarrow> (Finished, response_close w)
      | Finished \<Rightarrow> (Finished, w))"

text \<open>
  \<^verbatim>\<open>generator.throw(e)\<close>: the exception is raised where the generator stands. None
  of the body handles it, so it leaves the \<^verbatim>\<open>with\<close> block of a suspended
  generator, which closes the response, and comes back to the caller.
\<close>

definition gen_throw :: "error \<Rightarrow> generator \<Rightarrow> world \<Rightarrow> cluster signal \<times> generator \<times> world" where
  "gen_throw e g w =
     (case g of
        Created cluster_class ids endpoint \<Rightarrow> (Raise e, Finished, w)
      | Suspended cluster_class ls flt \<Rightarrow> (Raise e, Finished, response_close w)
      | Finished \<Rightarrow> (Raise e, Finished, w))"

text \<open>What a caller can do with a generator, and a caller doing it step by step.\<close>

datatype op = Next | Close | Throw error

fun run :: "env \<Rightarrow> op list \<Rightarrow> generator \<Rightarrow> world \<Rightarrow> cluster signal list \<times> generator \<times> world" where
  "run env [] g w = ([], g, w)"
| "run env (Next # ops) g w =
     (case gen_next env g w of (s, g1, w1) \<Rightarrow>
        (case run env ops g1 w1 of (ss, g2, w2) \<Rightarrow> (s # ss, g2, w2)))"
| "run env (Close # ops) g w =
     (case gen_close g w of (g1, w1) \<Rightarrow> run env ops g1 w1)"
| "run env (Throw e # ops) g w =
     (case gen_throw e g w of (s, g1, w1) \<Rightarrow>
        (case run env ops g1 w1 of (ss, g2, w2) \<Rightarrow> (s # ss, g2, w2)))"

text \<open>
  The lines a generator may still read: the measure under which consuming it to the end
  terminates.
\<close>

definition pending :: "env \<Rightarrow> generator \<Rightarrow> nat" where
  "pending env g =
     (case g of
        Created cluster_class ids endpoint \<Rightarrow>
          (case respond env \<lparr>verb = POST, path = endpoint,
                  payload = DataBody (join newline (map (dumps env) ids)), streaming = True\<rparr> of
             Inl e \<Rightarrow> 0
           | Inr r \<Rightarrow> Suc (length (lines r)))
      | Suspended cluster_class ls flt \<Rightarrow> length ls
      | Finished \<Rightarrow> 0)"

text \<open>
  \<^verbatim>\<open>list(generator)\<close>: the caller asks for elements until the generator stops or
  raises. The result is what was yielded, in order, and the exception that ended the
  iteration, if one did.
\<close>

function collect :: "env \<Rightarrow> generator \<Rightarrow> world
    \<Rightarrow> (cluster list \<times> error option) \<times> generator \<times> world" where
  "collect env g w =
     (case gen_next env g w of
        (Yield x, g1, w1) \<Rightarrow>
          (case collect env g1 w1 of ((xs, e), g2, w2) \<Rightarrow> ((x # xs, e), g2, w2))
      | (StopIteration, g1, w1) \<Rightarrow> (([], None), g1, w1)
      | (Raise e, g1, w1) \<Rightarrow> (([], Some e), g1, w1))"
  by pat_completeness auto
termination
proof (relation "measure (\<lambda>(env, g, w). pending env g)")
  show "wf (measure (\<lambda>(env, g, w). pending env g))"
    by simp
next
  fix env g w sg gw x g1 w1
  assume "(sg, gw) = gen_next env g w" and "sg = Yield x" and "(g1, w1) = gw"
  then have step: "gen_next env g w = (Yield x, g1, w1)"
    by simp
  have "pending env g1 < pending env g"
  proof (cases g)
    case (Created cc ids ep)
    with step show ?thesis
      by (auto simp: gen_next_def next_line_def client_post_def client_request_def
          pending_def Let_def split: sum.splits list.splits option.splits)
  next
    case (Suspended cc ls flt)
    with step show ?thesis
      by (auto simp: gen_next_def next_line_def pending_def
          split: list.splits option.splits)
  next
    case Finished
    with step show ?thesis
      by (simp add: gen_next_def)
  qed
  then show "((env, g1, w1), env, g, w) \<in> measure (\<lambda>(env, g, w). pending env g)"
    by simp
qed

declare collect.simps [simp del]

text \<open>The request that the body of \<^verbatim>\<open>_cluster_versions\<close> posts.\<close>

definition stream_request :: "env \<Rightarrow> string list \<Rightarrow> string \<Rightarrow> request" where
  "stream_request env ids endpoint =
     \<lparr>verb = POST, path = endpoint,
      payload = DataBody (join newline (map (dumps env) ids)), streaming = True\<rparr>"

section \<open>AttributeConfigurationCollection\<close>

definition by_external_id :: "resource \<Rightarrow> string \<Rightarrow> resource io" where
  "by_external_id self external_id =
     io_raise (NotImplementedError ''AttributeConfiguration des not support external_id'')"

text \<open>
  \<^verbatim>\<open>create\<close>: one POST of the specification, then the checks and the decoding of
  the response, then the wrapping of the decoded body with no path given.
\<close>

definition create :: "env \<Rightarrow> resource \<Rightarrow> json \<Rightarrow> resource io" where
  "create env self creation_spec =
     io_bind (client_post env (api_path self) (JsonBody creation_spec) False) (\<lambda>resp.
     io_bind (io_lift (successful resp)) (\<lambda>ok.
     io_bind (io_lift (response_json ok)) (\<lambda>d.
       io_lift (from_json AttributeConfiguration (client self) (Some d) None))))"

section \<open>A server to run the operations against\<close>

text \<open>
  Project 1 of the unit tests, whose unified dataset is named
  \<^verbatim>\<open>project 1 unified dataset\<close>, on a server that holds the given datasets.
\<close>

definition ex_world :: world where
  "ex_world = \<lparr>calls = [], acquired = 0, released = 0\<rparr>"

definition ex_project :: resource where
  "ex_project = \<lparr>cls = MasteringProject, client = 0, data = None, api_path = ''projects/1''\<rparr>"

definition ex_dataset :: "string \<Rightarrow> string \<Rightarrow> resource" where
  "ex_dataset n p =
     \<lparr>cls = Dataset, client = 0,
      data = Some (JObj [(''name'', JStr n), (''relativeId'', JStr p)]), api_path = p\<rparr>"

definition ex_unified :: "string \<Rightarrow> error + resource" where
  "ex_unified p =
     (if p = ''projects/1'' then Inr (ex_dataset ''project 1 unified dataset'' ''datasets/8'')
      else Inl NotFound)"

text \<open>
  The attribute configuration that the server of the unit tests returns when one is
  created, and the collection it is created in.
\<close>

definition ex_created :: json where
  "ex_created =
     JObj [(''id'', JStr ''unify://unified-data/v1/projects/1/attributeConfigurations/35''),
           (''relativeId'', JStr ''projects/1/attributeConfigurations/35''),
           (''relativeAttributeId'', JStr ''datasets/79/attributes/Tester''),
           (''attributeRole'', JStr []),
           (''similarityFunction'', JStr ''ABSOLUTE_DIFF''),
           (''enabledForMl'', JBool False),
           (''tokenizer'', JStr []),
           (''numericFieldResolution'', JArr []),
           (''attributeName'', JStr ''Tester'')]"

definition ex_collection :: resource where
  "ex_collection =
     \<lparr>cls = AttributeConfigurationCollection, client = 0, data = None,
      api_path = ''projects/1/attributeConfigurations''\<rparr>"

text \<open>
  The transport: creation answers 204 with the created object; the cluster-version
  endpoint streams two lines; the record cluster-version endpoint streams a line, then a
  line that is not JSON, then another line. Nothing else is reachable.
\<close>

definition ex_respond :: "request \<Rightarrow> error + response" where
  \<open>ex_respond req =
     (if verb req = POST \<and> path req = ''projects/1/attributeConfigurations''
      then Inr \<lparr>status = 204, json_of = Some ex_created, lines = [], fault = None\<rparr>
      else if verb req = POST \<and> path req = ''projects/1/publishedClusterVersions''
      then Inr \<lparr>status = 200, json_of = None,
                lines = [''{"id": "id1"}'', ''{"id": "id2"}''], fault = None\<rparr>
      else if verb req = POST \<and> path req = ''projects/1/recordPublishedClusterVersions''
      then Inr \<lparr>status = 200, json_of = None,
                lines = [''{"id": "id1"}'', ''not json'', ''{"id": "id2"}''], fault = None\<rparr>
      else Inl TransportError)\<close>

text \<open>
  \<^verbatim>\<open>json.dumps\<close> on identifiers in which nothing needs an escape, and
  \<^verbatim>\<open>json.loads\<close> on the lines above.
\<close>

definition ex_dumps :: "string \<Rightarrow> string" where
  "ex_dumps s = CHR 0x22 # s @ [CHR 0x22]"

definition ex_loads :: "string \<Rightarrow> json option" where
  \<open>ex_loads l =
     (if l = ''{"id": "id1"}'' then Some (JObj [(''id'', JStr ''id1'')])
      else if l = ''{"id": "id2"}'' then Some (JObj [(''id'', JStr ''id2'')])
      else None)\<close>

definition ex_env :: "resource list \<Rightarrow> env" where
  "ex_env ds = \<lparr>respond = ex_respond, unified = ex_unified, datasets = ds,
     dumps = ex_dumps, loads = ex_loads\<rparr>"

definition ex_datasets :: "resource list" where
  "ex_datasets =
     [ex_dataset ''project 1 unified dataset'' ''datasets/8'',
      ex_dataset ''project 1 unified dataset_dedup_published_clusters'' ''datasets/12'',
      ex_dataset ''project 1 unified dataset_dedup_clusters_with_data'' ''datasets/13'',
      ex_dataset ''project 1 unified dataset_dedup_published_clusters_with_data'' ''datasets/14'']"

section \<open>Properties\<close>

subsection \<open>Datasets resolved through a derived name\<close>

lemma derived_name:
  assumes "unified env (api_path self) = Inr ud"
      and "data ud = Some b"
      and "lookup ''name'' b = Inr (JStr n)"
  shows "io_bind (unified_dataset env self) (\<lambda>ud. io_bind (name env ud) f) w =
           f n (record_call (UnifiedDataset (api_path self)) w)"
  using assms
  by (simp add: io_bind_def unified_dataset_def name_def get_field_def io_lift_def io_return_def)

lemma by_name_found:
  "find (has_name n) (datasets env) = Some d \<Longrightarrow>
     by_name env n w = (Inr d, record_call (ByName n) w)"
  by (simp add: by_name_def)

lemma by_name_missing:
  "\<not> list_ex (has_name n) (datasets env) \<Longrightarrow>
     by_name env n w = (Inl NotFound, record_call (ByName n) w)"
proof -
  assume "\<not> list_ex (has_name n) (datasets env)"
  then have "find (has_name n) (datasets env) = None"
    by (simp add: find_None_iff list_ex_iff)
  then show ?thesis
    by (simp add: by_name_def)
qed

lemma derived_lookup_fails:
  assumes "unified env (api_path self) = Inr ud"
      and "data ud = Some b"
      and "lookup ''name'' b = Inr (JStr n)"
      and "\<not> list_ex (has_name (n @ sfx)) (datasets env)"
  shows "io_bind (unified_dataset env self) (\<lambda>ud. io_bind (name env ud) (\<lambda>n.
           io_bind (by_name env (n @ sfx)) f)) w =
           (Inl NotFound,
            w\<lparr>calls := calls w @ [UnifiedDataset (api_path self), ByName (n @ sfx)]\<rparr>)"
proof -
  have "io_bind (unified_dataset env self) (\<lambda>ud. io_bind (name env ud) (\<lambda>n.
          io_bind (by_name env (n @ sfx)) f)) w =
        io_bind (by_name env (n @ sfx)) f (record_call (UnifiedDataset (api_path self)) w)"
    by (rule derived_name [OF assms(1-3)])
  also have "\<dots> = (Inl NotFound,
      w\<lparr>calls := calls w @ [UnifiedDataset (api_path self), ByName (n @ sfx)]\<rparr>)"
    by (simp add: io_bind_def by_name_missing [OF assms(4)] record_call_def)
  finally show ?thesis .
qed

text \<open>
  C1. When the unified dataset of a mastering project has the name \<open>n\<close>,
  \<^verbatim>\<open>published_clusters()\<close> first fetches the unified dataset, then looks the
  dataset named \<open>n\<close> followed by \<^verbatim>\<open>_dedup_published_clusters\<close> up by that
  exact name, and returns the body of the dataset found as a dataset at the path of the
  project followed by \<^verbatim>\<open>/publishedClusters\<close>.
\<close>

theorem published_clusters_by_derived_name:
  assumes "unified env (api_path self) = Inr ud"
      and "data ud = Some b"
      and "lookup ''name'' b = Inr (JStr n)"
      and "find (has_name (n @ ''_dedup_published_clusters'')) (datasets env) = Some canonical"
  shows "published_clusters env self w =
           (Inr \<lparr>cls = Dataset, client = client self, data = data canonical,
                 api_path = api_path self @ ''/publishedClusters''\<rparr>,
            w\<lparr>calls := calls w @ [UnifiedDataset (api_path self),
                                   ByName (n @ ''_dedup_published_clusters'')]\<rparr>)"
proof -
  have "published_clusters env self w =
          io_bind (by_name env (n @ ''_dedup_published_clusters'')) (\<lambda>canonical.
            io_lift (from_json Dataset (client self) (data canonical)
              (Some (api_path self @ ''/publishedClusters''))))
            (record_call (UnifiedDataset (api_path self)) w)"
    unfolding published_clusters_def Let_def by (rule derived_name [OF assms(1-3)])
  then show ?thesis
    by (simp add: io_bind_def by_name_found [OF assms(4)] io_lift_def from_json_def
        new_resource_def record_call_def)
qed

theorem published_clusters_by_derived_name_witness:
  "published_clusters (ex_env ex_datasets) ex_project ex_world =
     (Inr \<lparr>cls = Dataset, client = 0,
           data = Some (JObj [(''name'', JStr ''project 1 unified dataset_dedup_published_clusters''),
                              (''relativeId'', JStr ''datasets/12'')]),
           api_path = ''projects/1/publishedClusters''\<rparr>,
      \<lparr>calls = [UnifiedDataset ''projects/1'',
                ByName ''project 1 unified dataset_dedup_published_clusters''],
       acquired = 0, released = 0\<rparr>)"
  using published_clusters_by_derived_name
    [of "ex_env ex_datasets" ex_project
        "ex_dataset ''project 1 unified dataset'' ''datasets/8''"
        "JObj [(''name'', JStr ''project 1 unified dataset''), (''relativeId'', JStr ''datasets/8'')]"
        "''project 1 unified dataset''"
        "ex_dataset ''project 1 unified dataset_dedup_published_clusters'' ''datasets/12''"
        ex_world]
  by (simp add: ex_env_def ex_project_def ex_unified_def ex_dataset_def ex_datasets_def
      ex_world_def has_name_def)

text \<open>
  C7. When no dataset has the derived name, \<^verbatim>\<open>published_clusters()\<close>,
  \<^verbatim>\<open>published_cluster_ids()\<close> and \<^verbatim>\<open>published_cluster_stats()\<close> fail
  with the \<open>NotFound\<close> of the lookup, unchanged, after exactly one lookup, which is
  by the derived name: nothing is tried again and no other name is tried.
\<close>

theorem derived_name_missing_is_not_found:
  assumes "unified env (api_path self) = Inr ud"
      and "data ud = Some b"
      and "lookup ''name'' b = Inr (JStr n)"
  shows "(\<not> list_ex (has_name (n @ ''_dedup_published_clusters'')) (datasets env) \<longrightarrow>
            published_clusters env self w =
              (Inl NotFound,
               w\<lparr>calls := calls w @ [UnifiedDataset (api_path self),
                                      ByName (n @ ''_dedup_published_clusters'')]\<rparr>)) \<and>
         (\<not> list_ex (has_name (n @ ''_dedup_all_persistent_ids'')) (datasets env) \<longrightarrow>
            published_cluster_ids env self w =
              (Inl NotFound,
               w\<lparr>calls := calls w @ [UnifiedDataset (api_path self),
                                      ByName (n @ ''_dedup_all_persistent_ids'')]\<rparr>)) \<and>
         (\<not> list_ex (has_name (n @ ''_dedup_published_cluster_stats'')) (datasets env) \<longrightarrow>
            published_cluster_stats env self w =
              (Inl NotFound,
               w\<lparr>calls := calls w @ [UnifiedDataset (api_path self),
                                      ByName (n @ ''_dedup_published_cluster_stats'')]\<rparr>))"
  unfolding published_clusters_def published_cluster_ids_def published_cluster_stats_def
  using derived_lookup_fails [OF assms] by blast

theorem derived_name_missing_is_not_found_witness:
  "published_clusters (ex_env []) ex_project ex_world =
     (Inl NotFound,
      \<lparr>calls = [UnifiedDataset ''projects/1'',
                ByName ''project 1 unified dataset_dedup_published_clusters''],
       acquired = 0, released = 0\<rparr>) \<and>
   published_cluster_ids (ex_env ex_datasets) ex_project ex_world =
     (Inl NotFound,
      \<lparr>calls = [UnifiedDataset ''projects/1'',
                ByName ''project 1 unified dataset_dedup_all_persistent_ids''],
       acquired = 0, released = 0\<rparr>) \<and>
   published_cluster_stats (ex_env ex_datasets) ex_project ex_world =
     (Inl NotFound,
      \<lparr>calls = [UnifiedDataset ''projects/1'',
                ByName ''project 1 unified dataset_dedup_published_cluster_stats''],
       acquired = 0, released = 0\<rparr>)"
  using derived_name_missing_is_not_found
    [of "ex_env []" ex_project
        "ex_dataset ''project 1 unified dataset'' ''datasets/8''"
        "JObj [(''name'', JStr ''project 1 unified dataset''), (''relativeId'', JStr ''datasets/8'')]"
        "''project 1 unified dataset''" ex_world]
    derived_name_missing_is_not_found
    [of "ex_env ex_datasets" ex_project
        "ex_dataset ''project 1 unified dataset'' ''datasets/8''"
        "JObj [(''name'', JStr ''project 1 unified dataset''), (''relativeId'', JStr ''datasets/8'')]"
        "''project 1 unified dataset''" ex_world]
  by (simp add: ex_env_def ex_project_def ex_unified_def ex_dataset_def ex_datasets_def
      ex_world_def has_name_def)

text \<open>
  C10. \<^verbatim>\<open>record_clusters_with_data()\<close> and
  \<^verbatim>\<open>published_clusters_with_data()\<close> return the dataset found under the derived
  name as the lookup delivers it, at its own path, whereas
  \<^verbatim>\<open>published_clusters()\<close> returns the dataset it finds under a path of the
  project.
\<close>

theorem with_data_returns_canonical_dataset:
  assumes "unified env (api_path self) = Inr ud"
      and "data ud = Some b"
      and "lookup ''name'' b = Inr (JStr n)"
  shows "(find (has_name (n @ ''_dedup_clusters_with_data'')) (datasets env) = Some d1 \<longrightarrow>
            record_clusters_with_data env self w =
              (Inr d1,
               w\<lparr>calls := calls w @ [UnifiedDataset (api_path self),
                                      ByName (n @ ''_dedup_clusters_with_data'')]\<rparr>)) \<and>
         (find (has_name (n @ ''_dedup_published_clusters_with_data'')) (datasets env) = Some d2 \<longrightarrow>
            published_clusters_with_data env self w =
              (Inr d2,
               w\<lparr>calls := calls w @ [UnifiedDataset (api_path self),
                                      ByName (n @ ''_dedup_published_clusters_with_data'')]\<rparr>)) \<and>
         (find (has_name (n @ ''_dedup_published_clusters'')) (datasets env) = Some d3 \<longrightarrow>
            published_clusters env self w =
              (Inr (d3\<lparr>cls := Dataset, client := client self,
                        api_path := api_path self @ ''/publishedClusters''\<rparr>),
               w\<lparr>calls := calls w @ [UnifiedDataset (api_path self),
                                      ByName (n @ ''_dedup_published_clusters'')]\<rparr>))"
proof -
  have "record_clusters_with_data env self w =
          by_name env (n @ ''_dedup_clusters_with_data'')
            (record_call (UnifiedDataset (api_path self)) w)"
    unfolding record_clusters_with_data_def by (rule derived_name [OF assms])
  moreover have "published_clusters_with_data env self w =
          by_name env (n @ ''_dedup_published_clusters_with_data'')
            (record_call (UnifiedDataset (api_path self)) w)"
    unfolding published_clusters_with_data_def by (rule derived_name [OF assms])
  moreover have "published_clusters env self w =
          io_bind (by_name env (n @ ''_dedup_published_clusters'')) (\<lambda>canonical.
            io_lift (from_json Dataset (client self) (data canonical)
              (Some (api_path self @ ''/publishedClusters''))))
            (record_call (UnifiedDataset (api_path self)) w)"
    unfolding published_clusters_def Let_def by (rule derived_name [OF assms])
  ultimately show ?thesis
    by (simp add: by_name_found record_call_def io_bind_def io_lift_def from_json_def
        new_resource_def)
qed

theorem with_data_returns_canonical_dataset_witness:
  "record_clusters_with_data (ex_env ex_datasets) ex_project ex_world =
     (Inr (ex_dataset ''project 1 unified dataset_dedup_clusters_with_data'' ''datasets/13''),
      \<lparr>calls = [UnifiedDataset ''projects/1'',
                ByName ''project 1 unified dataset_dedup_clusters_with_data''],
       acquired = 0, released = 0\<rparr>) \<and>
   published_clusters_with_data (ex_env ex_datasets) ex_project ex_world =
     (Inr (ex_dataset ''project 1 unified dataset_dedup_published_clusters_with_data''
             ''datasets/14''),
      \<lparr>calls = [UnifiedDataset ''projects/1'',
                ByName ''project 1 unified dataset_dedup_published_clusters_with_data''],
       acquired = 0, released = 0\<rparr>) \<and>
   api_path (ex_dataset ''project 1 unified dataset_dedup_clusters_with_data'' ''datasets/13'')
     = ''datasets/13'' \<and>
   published_clusters (ex_env ex_datasets) ex_project ex_world =
     (Inr \<lparr>cls = Dataset, client = 0,
           data = Some (JObj [(''name'', JStr ''project 1 unified dataset_dedup_published_clusters''),
                              (''relativeId'', JStr ''datasets/12'')]),
           api_path = ''projects/1/publishedClusters''\<rparr>,
      \<lparr>calls = [UnifiedDataset ''projects/1'',
                ByName ''project 1 unified dataset_dedup_published_clusters''],
       acquired = 0, released = 0\<rparr>)"
  using with_data_returns_canonical_dataset
    [of "ex_env ex_datasets" ex_project
        "ex_dataset ''project 1 unified dataset'' ''datasets/8''"
        "JObj [(''name'', JStr ''project 1 unified dataset''), (''relativeId'', JStr ''datasets/8'')]"
        "''project 1 unified dataset''"
        "ex_dataset ''project 1 unified dataset_dedup_clusters_with_data'' ''datasets/13''"
        ex_world
        "ex_dataset ''project 1 unified dataset_dedup_published_clusters_with_data'' ''datasets/14''"
        "ex_dataset ''project 1 unified dataset_dedup_published_clusters'' ''datasets/12''"]
  by (simp add: ex_env_def ex_project_def ex_unified_def ex_dataset_def ex_datasets_def
      ex_world_def has_name_def)

subsection \<open>Sub-resources that need no request\<close>

text \<open>
  C6. \<^verbatim>\<open>pairs()\<close>, \<^verbatim>\<open>high_impact_pairs()\<close>,
  \<^verbatim>\<open>record_clusters()\<close> and \<^verbatim>\<open>pair_matching_model()\<close> leave the world
  as it was (no call goes through the client) and return an unresolved resource whose
  path is the path of the project followed by the fixed suffix, character for character.
\<close>

theorem sub_resources_are_unresolved_aliases:
  "pairs self w =
     (Inr \<lparr>cls = Dataset, client = client self, data = None,
           api_path = api_path self @ ''/recordPairs''\<rparr>, w) \<and>
   high_impact_pairs self w =
     (Inr \<lparr>cls = Dataset, client = client self, data = None,
           api_path = api_path self @ ''/highImpactPairs''\<rparr>, w) \<and>
   record_clusters self w =
     (Inr \<lparr>cls = Dataset, client = client self, data = None,
           api_path = api_path self @ ''/recordClusters''\<rparr>, w) \<and>
   pair_matching_model self w =
     (Inr \<lparr>cls = MachineLearningModel, client = client self, data = None,
           api_path = api_path self @ ''/recordPairsWithPredictions/model''\<rparr>, w)"
  by (simp add: pairs_def high_impact_pairs_def record_clusters_def pair_matching_model_def
      Let_def io_return_def new_resource_def)


text \<open>
  C8. \<^verbatim>\<open>binning_model()\<close> leaves the world as it was and returns a binning model
  at the path of the project followed by \<^verbatim>\<open>/binningModel\<close>, whose body is the
  object with the single key \<^verbatim>\<open>relativeId\<close> bound to that path; no server takes
  part in it.
\<close>

theorem binning_model_is_hard_coded:
  "binning_model self w =
     (Inr \<lparr>cls = BinningModel, client = client self,
           data = Some (JObj [(''relativeId'', JStr (api_path self @ ''/binningModel''))]),
           api_path = api_path self @ ''/binningModel''\<rparr>, w)"
  by (simp add: binning_model_def Let_def io_lift_def from_json_def new_resource_def)

subsection \<open>AttributeConfigurationCollection\<close>

text \<open>
  C2. For every external id, \<^verbatim>\<open>AttributeConfigurationCollection.by_external_id\<close>
  raises the not-supported error without looking at its argument, and the world is left
  as it was: no call goes through the client.
\<close>

theorem by_external_id_not_supported:
  "by_external_id self external_id w =
     (Inl (NotImplementedError ''AttributeConfiguration des not support external_id''), w)"
  by (simp add: by_external_id_def io_raise_def)

text \<open>
  C4. Whatever the server answers, \<^verbatim>\<open>create(spec)\<close> issues exactly one request:
  a POST of the specification to the path of the collection. When the answer is
  successful and decodes to an object with a \<^verbatim>\<open>relativeId\<close>, the result is
  the attribute configuration resolved with that object, and its \<^verbatim>\<open>relative_id\<close>
  is the \<^verbatim>\<open>relativeId\<close> of the object, read without a further request.
\<close>

theorem create_posts_once_and_wraps_response:
  "calls (snd (create env self creation_spec w)) =
     calls w @ [Http \<lparr>verb = POST, path = api_path self, payload = JsonBody creation_spec,
                      streaming = False\<rparr>] \<and>
   (respond env \<lparr>verb = POST, path = api_path self, payload = JsonBody creation_spec,
                  streaming = False\<rparr> = Inr r \<and>
    200 \<le> status r \<and> status r < 300 \<and> json_of r = Some obj \<and>
    lookup ''relativeId'' obj = Inr (JStr rid) \<longrightarrow>
      create env self creation_spec w =
        (Inr \<lparr>cls = AttributeConfiguration, client = client self, data = Some obj,
              api_path = rid\<rparr>,
         w\<lparr>calls := calls w @ [Http \<lparr>verb = POST, path = api_path self,
                                      payload = JsonBody creation_spec, streaming = False\<rparr>]\<rparr>) \<and>
      relative_id env \<lparr>cls = AttributeConfiguration, client = client self, data = Some obj,
                       api_path = rid\<rparr> w' = (Inr (JStr rid), w'))"
proof (intro conjI impI)
  show "calls (snd (create env self creation_spec w)) =
     calls w @ [Http \<lparr>verb = POST, path = api_path self, payload = JsonBody creation_spec,
                      streaming = False\<rparr>]"
    by (simp add: create_def io_bind_def io_lift_def client_post_def client_request_def
        record_call_def Let_def split: sum.splits prod.splits)
next
  assume "respond env \<lparr>verb = POST, path = api_path self, payload = JsonBody creation_spec,
                  streaming = False\<rparr> = Inr r \<and>
    200 \<le> status r \<and> status r < 300 \<and> json_of r = Some obj \<and>
    lookup ''relativeId'' obj = Inr (JStr rid)"
  then show "create env self creation_spec w =
        (Inr \<lparr>cls = AttributeConfiguration, client = client self, data = Some obj,
              api_path = rid\<rparr>,
         w\<lparr>calls := calls w @ [Http \<lparr>verb = POST, path = api_path self,
                                      payload = JsonBody creation_spec, streaming = False\<rparr>]\<rparr>)"
    by (simp add: create_def io_bind_def io_lift_def client_post_def client_request_def
        record_call_def Let_def successful_def response_json_def from_json_def
        new_resource_def)
next
  assume "respond env \<lparr>verb = POST, path = api_path self, payload = JsonBody creation_spec,
                  streaming = False\<rparr> = Inr r \<and>
    200 \<le> status r \<and> status r < 300 \<and> json_of r = Some obj \<and>
    lookup ''relativeId'' obj = Inr (JStr rid)"
  then show "relative_id env \<lparr>cls = AttributeConfiguration, client = client self,
      data = Some obj, api_path = rid\<rparr> w' = (Inr (JStr rid), w')"
    by (simp add: relative_id_def get_field_def io_lift_def)
qed

theorem create_posts_once_and_wraps_response_witness:
  "create (ex_env []) ex_collection (JArr [ex_created]) ex_world =
     (Inr \<lparr>cls = AttributeConfiguration, client = 0, data = Some ex_created,
           api_path = ''projects/1/attributeConfigurations/35''\<rparr>,
      \<lparr>calls = [Http \<lparr>verb = POST, path = ''projects/1/attributeConfigurations'',
                       payload = JsonBody (JArr [ex_created]), streaming = False\<rparr>],
       acquired = 0, released = 0\<rparr>) \<and>
   relative_id (ex_env [])
     \<lparr>cls = AttributeConfiguration, client = 0, data = Some ex_created,
      api_path = ''projects/1/attributeConfigurations/35''\<rparr> ex_world =
     (Inr (JStr ''projects/1/attributeConfigurations/35''), ex_world)"
  using create_posts_once_and_wraps_response
    [of "ex_env []" ex_collection "JArr [ex_created]" ex_world
        "\<lparr>status = 204, json_of = Some ex_created, lines = [], fault = None\<rparr>"
        ex_created "''projects/1/attributeConfigurations/35''" ex_world]
  by (simp add: ex_env_def ex_collection_def ex_respond_def ex_world_def)
     (simp add: ex_created_def)

subsection \<open>The cluster-version streams\<close>

lemma collect_same_next:
  "gen_next env g w = gen_next env g' w' \<Longrightarrow> collect env g w = collect env g' w'"
  by (simp add: collect.simps [of env g w] collect.simps [of env g' w'])

lemma collect_suspended:
  "map (loads env) ls = map Some js \<Longrightarrow>
     collect env (Suspended cc ls flt) w = ((map cc js, flt), Finished, response_close w)"
proof (induction ls arbitrary: js)
  case Nil
  then show ?case
    by (subst collect.simps) (cases flt; simp add: gen_next_def next_line_def)
next
  case (Cons l ls)
  then obtain j js' where js: "js = j # js'" and l: "loads env l = Some j"
    and rest: "map (loads env) ls = map Some js'"
    by (cases js) auto
  have "gen_next env (Suspended cc (l # ls) flt) w = (Yield (cc j), Suspended cc ls flt, w)"
    by (simp add: gen_next_def next_line_def l)
  then show ?case
    by (simp add: collect.simps [of env "Suspended cc (l # ls) flt"] Cons.IH [OF rest] js)
qed

lemma gen_next_created:
  assumes "respond env (stream_request env ids ep) = Inr r"
  shows "gen_next env (Created cc ids ep) w =
           next_line env cc (lines r) (fault r)
             (w\<lparr>calls := calls w @ [Http (stream_request env ids ep)],
                acquired := acquired w + 1\<rparr>)"
  using assms
  by (simp add: gen_next_def client_post_def client_request_def record_call_def Let_def
      stream_request_def)

lemma collect_created:
  assumes "respond env (stream_request env ids ep) = Inr r"
      and "map (loads env) (lines r) = map Some js"
  shows "collect env (Created cc ids ep) w =
           ((map cc js, fault r), Finished,
            w\<lparr>calls := calls w @ [Http (stream_request env ids ep)],
              acquired := acquired w + 1, released := released w + 1\<rparr>)"
proof -
  let ?w1 = "w\<lparr>calls := calls w @ [Http (stream_request env ids ep)],
                acquired := acquired w + 1\<rparr>"
  have "gen_next env (Created cc ids ep) w = next_line env cc (lines r) (fault r) ?w1"
    by (rule gen_next_created [OF assms(1)])
  moreover have "gen_next env (Suspended cc (lines r) (fault r)) ?w1 =
      next_line env cc (lines r) (fault r) ?w1"
    by (simp add: gen_next_def)
  ultimately have "collect env (Created cc ids ep) w =
      collect env (Suspended cc (lines r) (fault r)) ?w1"
    by (intro collect_same_next) simp
  then show ?thesis
    by (simp add: collect_suspended [OF assms(2)] response_close_def)
qed

lemma gen_next_started:
  assumes "\<not> is_Created g" and "gen_next env g w = (s, g1, w1)"
  shows "\<not> is_Created g1 \<and> calls w1 = calls w \<and> acquired w1 = acquired w \<and>
         released w1 = released w + (if is_Suspended g \<and> \<not> is_Yield s then 1 else 0) \<and>
         is_Finished g1 = (\<not> is_Yield s) \<and> (is_Finished g \<longrightarrow> \<not> is_Yield s)"
  using assms
  by (cases g)
     (auto simp: gen_next_def next_line_def response_close_def
       split: list.splits option.splits)

lemma gen_close_started:
  assumes "\<not> is_Created g" and "gen_close g w = (g1, w1)"
  shows "g1 = Finished \<and> calls w1 = calls w \<and> acquired w1 = acquired w \<and>
         released w1 = released w + (if is_Suspended g then 1 else 0)"
  using assms
  by (cases g) (auto simp: gen_close_def response_close_def)

lemma gen_throw_started:
  assumes "\<not> is_Created g" and "gen_throw e g w = (s, g1, w1)"
  shows "g1 = Finished \<and> \<not> is_Yield s \<and> calls w1 = calls w \<and> acquired w1 = acquired w \<and>
         released w1 = released w + (if is_Suspended g then 1 else 0)"
  using assms
  by (cases g) (auto simp: gen_throw_def response_close_def)

lemma started_cases: "\<not> is_Created g \<Longrightarrow> is_Suspended g = (\<not> is_Finished g)"
  by (cases g) simp_all

lemma run_started:
  assumes "\<not> is_Created g" and "run env ops g w = (out, g', w')"
  shows "\<not> is_Created g' \<and> calls w' = calls w \<and> acquired w' = acquired w \<and>
         is_Finished g' = (is_Finished g \<or> Close \<in> set ops \<or> \<not> list_all is_Yield out) \<and>
         released w' = released w + (if is_Suspended g \<and> is_Finished g' then 1 else 0)"
  using assms
proof (induction ops arbitrary: g w out)
  case Nil
  then show ?case
    by (auto simp: started_cases)
next
  case (Cons o1 ops)
  show ?case
  proof (cases o1)
    case Next
    obtain s g1 w1 where step: "gen_next env g w = (s, g1, w1)"
      by (cases "gen_next env g w") auto
    obtain ss where rest: "run env ops g1 w1 = (ss, g', w')" and out: "out = s # ss"
      using Cons.prems(2) Next step by (auto split: prod.splits)
    note a = gen_next_started [OF Cons.prems(1) step]
    from a have g1: "\<not> is_Created g1" by simp
    note b = Cons.IH [OF g1 rest]
    from a b show ?thesis
      using Cons.prems(1) g1 by (auto simp: started_cases out Next)
  next
    case Close
    obtain g1 w1 where step: "gen_close g w = (g1, w1)"
      by (cases "gen_close g w") auto
    have rest: "run env ops g1 w1 = (out, g', w')"
      using Cons.prems(2) Close step by simp
    note a = gen_close_started [OF Cons.prems(1) step]
    from a have g1: "\<not> is_Created g1" by simp
    note b = Cons.IH [OF g1 rest]
    from a b show ?thesis
      using Cons.prems(1) g1 by (auto simp: started_cases Close)
  next
    case (Throw e)
    obtain s g1 w1 where step: "gen_throw e g w = (s, g1, w1)"
      by (cases "gen_throw e g w") auto
    obtain ss where rest: "run env ops g1 w1 = (ss, g', w')" and out: "out = s # ss"
      using Cons.prems(2) Throw step by (auto split: prod.splits)
    note a = gen_throw_started [OF Cons.prems(1) step]
    from a have g1: "\<not> is_Created g1" by simp
    note b = Cons.IH [OF g1 rest]
    from a b show ?thesis
      using Cons.prems(1) g1 by (auto simp: started_cases out Throw)
  qed
qed


lemma run_failed_post:
  assumes "respond env (stream_request env ids ep) = Inl e"
  shows "gen_next env (Created cc ids ep) w =
           (Raise e, Finished, w\<lparr>calls := calls w @ [Http (stream_request env ids ep)]\<rparr>)"
  using assms
  by (simp add: gen_next_def client_post_def client_request_def record_call_def Let_def
      stream_request_def)

text \<open>
  \<^verbatim>\<open>sep.join(parts)\<close> is the first part followed by every other part with the
  separator before it, and nothing for no parts.
\<close>

lemma join_cons: "join sep (x # xs) = x @ concat (map ((@) sep) xs)"
  by (induction xs arbitrary: x) simp_all

lemma join_newline_map:
  "join newline (map f ids) =
     (case ids of [] \<Rightarrow> [] | i # rest \<Rightarrow> f i @ concat (map (\<lambda>j. CHR 0x0A # f j) rest))"
  by (cases ids) (simp_all add: join_cons newline_def comp_def)

text \<open>
  C3. \<^verbatim>\<open>published_cluster_versions(ids)\<close> returns the generator of the
  cluster-version endpoint of the project. Consumed to its end, it has issued exactly one
  request, a streaming POST to the path of the project followed by
  \<^verbatim>\<open>/publishedClusterVersions\<close>. The body of the request is empty for no
  identifiers, and otherwise the first encoded identifier followed by every further
  encoded identifier with a line feed (the character 0x0A) before it. When the lines of
  the response decode to \<open>js\<close>, the generator has yielded one
  \<^verbatim>\<open>PublishedCluster\<close> per line, built from the decoded line, in the order of
  the lines.
\<close>

theorem published_cluster_versions_streams_lines:
  assumes "respond env \<lparr>verb = POST, path = api_path self @ ''/publishedClusterVersions'',
             payload = DataBody
               (case cluster_ids of
                  [] \<Rightarrow> []
                | i # rest \<Rightarrow> dumps env i @ concat (map (\<lambda>j. CHR 0x0A # dumps env j) rest)),
             streaming = True\<rparr> = Inr r"
      and "map (loads env) (lines r) = map Some js"
  shows "published_cluster_versions self cluster_ids w =
           (Inr (Created PublishedCluster cluster_ids
                   (api_path self @ ''/publishedClusterVersions'')), w) \<and>
         collect env (Created PublishedCluster cluster_ids
                   (api_path self @ ''/publishedClusterVersions'')) w =
           ((map PublishedCluster js, fault r), Finished,
            w\<lparr>calls := calls w @
                 [Http \<lparr>verb = POST, path = api_path self @ ''/publishedClusterVersions'',
                        payload = DataBody
                          (case cluster_ids of
                             [] \<Rightarrow> []
                           | i # rest \<Rightarrow>
                               dumps env i @ concat (map (\<lambda>j. CHR 0x0A # dumps env j) rest)),
                        streaming = True\<rparr>],
              acquired := acquired w + 1, released := released w + 1\<rparr>) \<and>
         length js = length (lines r)"
proof -
  have post: "respond env (stream_request env cluster_ids
      (api_path self @ ''/publishedClusterVersions'')) = Inr r"
    using assms(1) by (simp add: stream_request_def join_newline_map)
  have "length (map (loads env) (lines r)) = length (map Some js)"
    using assms(2) by simp
  then have len: "length js = length (lines r)"
    by simp
  show ?thesis
    using collect_created [OF post assms(2), of PublishedCluster w] len
    by (simp add: published_cluster_versions_def cluster_versions_def io_return_def
        stream_request_def join_newline_map)
qed

theorem published_cluster_versions_streams_lines_witness:
  \<open>collect (ex_env [])
     (Created PublishedCluster [''id1'', ''id2'', ''id3''] ''projects/1/publishedClusterVersions'')
     ex_world =
     (([PublishedCluster (JObj [(''id'', JStr ''id1'')]),
        PublishedCluster (JObj [(''id'', JStr ''id2'')])], None), Finished,
      \<lparr>calls = [Http \<lparr>verb = POST, path = ''projects/1/publishedClusterVersions'',
                       payload = DataBody
                         (''"id1"'' @ [CHR 0x0A] @ ''"id2"'' @ [CHR 0x0A] @ ''"id3"''),
                       streaming = True\<rparr>],
       acquired = 1, released = 1\<rparr>) \<and>
   calls (snd (snd (collect (ex_env [])
     (Created PublishedCluster [''id1'', ''id2''] ''projects/1/publishedClusterVersions'')
     ex_world))) =
     [Http \<lparr>verb = POST, path = ''projects/1/publishedClusterVersions'',
            payload = DataBody (''"id1"'' @ [CHR 0x0A] @ ''"id2"''), streaming = True\<rparr>] \<and>
   calls (snd (snd (collect (ex_env [])
     (Created PublishedCluster [''id1''] ''projects/1/publishedClusterVersions'')
     ex_world))) =
     [Http \<lparr>verb = POST, path = ''projects/1/publishedClusterVersions'',
            payload = DataBody ''"id1"'', streaming = True\<rparr>] \<and>
   calls (snd (snd (collect (ex_env [])
     (Created PublishedCluster [] ''projects/1/publishedClusterVersions'')
     ex_world))) =
     [Http \<lparr>verb = POST, path = ''projects/1/publishedClusterVersions'',
            payload = DataBody [], streaming = True\<rparr>]\<close>
  using published_cluster_versions_streams_lines
    [of "ex_env []" ex_project "[''id1'', ''id2'', ''id3'']"
        \<open>\<lparr>status = 200, json_of = None,
          lines = [''{"id": "id1"}'', ''{"id": "id2"}''], fault = None\<rparr>\<close>
        "[JObj [(''id'', JStr ''id1'')], JObj [(''id'', JStr ''id2'')]]" ex_world]
    published_cluster_versions_streams_lines
    [of "ex_env []" ex_project "[''id1'', ''id2'']"
        \<open>\<lparr>status = 200, json_of = None,
          lines = [''{"id": "id1"}'', ''{"id": "id2"}''], fault = None\<rparr>\<close>
        "[JObj [(''id'', JStr ''id1'')], JObj [(''id'', JStr ''id2'')]]" ex_world]
    published_cluster_versions_streams_lines
    [of "ex_env []" ex_project "[''id1'']"
        \<open>\<lparr>status = 200, json_of = None,
          lines = [''{"id": "id1"}'', ''{"id": "id2"}''], fault = None\<rparr>\<close>
        "[JObj [(''id'', JStr ''id1'')], JObj [(''id'', JStr ''id2'')]]" ex_world]
    published_cluster_versions_streams_lines
    [of "ex_env []" ex_project "[]"
        \<open>\<lparr>status = 200, json_of = None,
          lines = [''{"id": "id1"}'', ''{"id": "id2"}''], fault = None\<rparr>\<close>
        "[JObj [(''id'', JStr ''id1'')], JObj [(''id'', JStr ''id2'')]]" ex_world]
  by (simp add: ex_env_def ex_project_def ex_respond_def ex_loads_def ex_dumps_def
      ex_world_def)





text \<open>
  C9. Calling \<^verbatim>\<open>published_cluster_versions\<close> or
  \<^verbatim>\<open>record_published_cluster_versions\<close> leaves the world as it was and returns
  a generator that has not started. The first request for an element issues the POST;
  whatever the caller does afterwards, that POST stays the only request; and a generator
  closed before its first element never issues one.
\<close>

theorem cluster_version_streams_are_lazy:
  "published_cluster_versions self ids w =
     (Inr (Created PublishedCluster ids (api_path self @ ''/publishedClusterVersions'')), w) \<and>
   record_published_cluster_versions self ids w =
     (Inr (Created RecordPublishedCluster ids
             (api_path self @ ''/recordPublishedClusterVersions'')), w) \<and>
   calls (snd (snd (gen_next env (Created cluster_class ids endpoint) w))) =
     calls w @ [Http \<lparr>verb = POST, path = endpoint,
                      payload = DataBody (join newline (map (dumps env) ids)),
                      streaming = True\<rparr>] \<and>
   calls (snd (snd (run env (Next # ops) (Created cluster_class ids endpoint) w))) =
     calls w @ [Http \<lparr>verb = POST, path = endpoint,
                      payload = DataBody (join newline (map (dumps env) ids)),
                      streaming = True\<rparr>] \<and>
   calls (snd (snd (run env (Close # ops) (Created cluster_class ids endpoint) w))) = calls w"
proof -
  let ?g = "Created cluster_class ids endpoint"
  let ?req = "stream_request env ids endpoint"
  obtain s g1 w1 where first: "gen_next env ?g w = (s, g1, w1)"
    by (cases "gen_next env ?g w") auto
  have step: "\<not> is_Created g1 \<and> calls w1 = calls w @ [Http ?req]"
  proof (cases "respond env ?req")
    case (Inl e)
    from run_failed_post [OF Inl, of cluster_class w] first show ?thesis
      by auto
  next
    case (Inr r)
    let ?w1 = "w\<lparr>calls := calls w @ [Http ?req], acquired := acquired w + 1\<rparr>"
    have "gen_next env (Suspended cluster_class (lines r) (fault r)) ?w1 = (s, g1, w1)"
      using gen_next_created [OF Inr, of cluster_class w] first by (simp add: gen_next_def)
    from gen_next_started [OF _ this] show ?thesis
      by simp
  qed
  obtain ss g2 w2 where rest: "run env ops g1 w1 = (ss, g2, w2)"
    by (cases "run env ops g1 w1") auto
  from run_started [OF _ rest] step have "calls w2 = calls w @ [Http ?req]"
    by simp
  then have after: "calls (snd (snd (run env (Next # ops) ?g w))) = calls w @ [Http ?req]"
    using first rest by simp
  obtain ss' g3 w3 where closed: "run env ops Finished w = (ss', g3, w3)"
    by (cases "run env ops Finished w") auto
  from run_started [OF _ closed] have "calls w3 = calls w"
    by simp
  then have never: "calls (snd (snd (run env (Close # ops) ?g w))) = calls w"
    using closed by (simp add: gen_close_def)
  from step first after never show ?thesis
    by (simp add: published_cluster_versions_def record_published_cluster_versions_def
        cluster_versions_def io_return_def stream_request_def)
qed


end
